theory Spec2Isabelle
  imports Complex_Main
begin

section \<open>Data model\<close>

text \<open>
  The rows of \<^verbatim>\<open>app/core/database/models.py\<close> that the strategy executor reads or
  writes. Primary keys are UUIDs, modelled as natural numbers. DECIMAL columns and Python
  floats are modelled by the real numbers they denote; rounding is outside the model.
  \<^verbatim>\<open>Strategy.parameters\<close> is a JSONB dictionary, a map from keys to JSON values.
\<close>

type_synonym uuid = nat

datatype jval = JNum real | JStr string

record strategy =
  s_id :: uuid
  s_portfolio_id :: uuid
  strategy_type :: string
  parameters :: "string \<rightharpoonup> jval"
  is_active :: bool

record portfolio =
  p_id :: uuid
  initial_balance :: real
  current_balance :: real

record position =
  pos_portfolio_id :: uuid
  pos_symbol :: string
  pos_quantity :: real
  average_entry_price :: real

text \<open>
  A \<^verbatim>\<open>Trade\<close> object: one field for each mapped column of the class that has no default.
  \<open>None\<close> is an attribute that was never set. The symbol and the quantity hold whatever
  the signal holds. The class has no \<^verbatim>\<open>total_value\<close> column.
\<close>

record trade =
  t_user_id :: "uuid option"
  t_portfolio_id :: "uuid option"
  t_strategy_id :: "uuid option"
  t_exchange_name :: "string option"
  t_symbol :: "jval option"
  t_asset_class :: "string option"
  t_side :: "string option"
  t_order_type :: "string option"
  t_quantity :: "jval option"
  t_price :: "real option"
  t_executed_price :: "real option"
  t_status :: "string option"
  t_order_id :: "string option"
  t_fees :: "real option"
  t_profit_loss :: "real option"
  t_executed_at :: "int option"

record database =
  strategies :: "strategy list"
  portfolios :: "portfolio list"
  trades :: "trade list"
  positions :: "position list"

text \<open>The signal dictionary built by the two signal checks.\<close>

record signal =
  symbol :: jval
  side :: string
  quantity :: jval
  price :: real

section \<open>Exceptions and the environment\<close>

datatype py_error = ImportError | TypeError | IndexError | ValueError | DatabaseError

datatype db_op = QueryStrategy | QueryPortfolio | CommitTrade | CommitFinal


subsection \<open>Market data (app/core/services/webull.py)\<close>

text \<open>The OHLCV dictionary that \<^verbatim>\<open>get_bars\<close> and \<^verbatim>\<open>_get_sample_bars\<close> build for each bar.\<close>

record bar =
  timestamp :: int
  open_price :: real
  high_price :: real
  low_price :: real
  close_price :: real
  volume :: int

text \<open>
  The TA-Lib functions the signal checks call. They are not part of the repository and
  are parameters of the model. An output array holds NaN (here \<open>None\<close>) during the
  indicator's warm-up; a call may raise.
\<close>

type_synonym farray = "real option list"

record talib_lib =
  RSI :: "real list \<Rightarrow> nat \<Rightarrow> py_error + farray"
  MACD :: "real list \<Rightarrow> nat \<Rightarrow> nat \<Rightarrow> nat \<Rightarrow> py_error + (farray \<times> farray \<times> farray)"
  BBANDS :: "real list \<Rightarrow> nat \<Rightarrow> real \<Rightarrow> real \<Rightarrow> py_error + (farray \<times> farray \<times> farray)"

text \<open>
  What a signal check reads from outside:
  \<^item> \<open>talib\<close>: the imported library, \<open>None\<close> where \<^verbatim>\<open>import talib\<close> raises ImportError;
  \<^item> \<open>client\<close>: whether the Webull service holds an SDK client;
  \<^item> \<open>sdk_get_bars\<close>: the bars converted from the SDK's response, \<open>None\<close> where the SDK
    call or a conversion raises, the empty list where the response has no data;
  \<^item> \<open>rand_unit\<close>: the value of \<^verbatim>\<open>random.random()\<close> behind the k-th call of
    \<^verbatim>\<open>random.uniform\<close>, in the half-open unit interval; \<open>rand_int\<close>: the result of the
    i-th call of \<^verbatim>\<open>random.randint\<close>;
  \<^item> \<open>now\<close>: the local clock, in days.
\<close>

record market =
  talib :: "talib_lib option"
  client :: bool
  sdk_get_bars :: "jval \<Rightarrow> string \<Rightarrow> nat \<Rightarrow> bar list option"
  rand_unit :: "nat \<Rightarrow> real"
  rand_int :: "nat \<Rightarrow> int"
  now :: int

subsection \<open>The job's environment\<close>

text \<open>
  What the code under \<^verbatim>\<open>src/\<close> does not decide is an input of the model:
  \<^item> \<open>session_local\<close>: whether \<^verbatim>\<open>SessionLocal\<close> of \<^verbatim>\<open>session.py\<close> is a session factory. It
    is \<^verbatim>\<open>None\<close> when \<^verbatim>\<open>DATABASE_URL\<close> is not set (the default of \<^verbatim>\<open>config.py\<close>) or the engine
    could not be created; the property \<^verbatim>\<open>self.session\<close> then raises TypeError;
  \<^item> \<open>UUID\<close>: the standard library's UUID constructor, \<open>None\<close> where it raises ValueError;
  \<^item> \<open>raises\<close>: whether a given operation of an existing session raises;
  \<^item> \<open>utcnow\<close>: the UTC clock;
  \<^item> \<open>mkt\<close>: what the signal checks read.
\<close>

record env =
  session_local :: bool
  UUID :: "string \<Rightarrow> uuid option"
  raises :: "db_op \<Rightarrow> bool"
  utcnow :: int
  mkt :: market

definition bind_err :: "py_error + 'a \<Rightarrow> ('a \<Rightarrow> py_error + 'b) \<Rightarrow> py_error + 'b" where
  "bind_err r f = (case r of Inl e \<Rightarrow> Inl e | Inr x \<Rightarrow> f x)"

text \<open>\<^verbatim>\<open>d.get(key, default)\<close>\<close>

definition dict_get :: "('k \<rightharpoonup> 'v) \<Rightarrow> 'k \<Rightarrow> 'v \<Rightarrow> 'v" where
  "dict_get d k dflt = (case d k of None \<Rightarrow> dflt | Some v \<Rightarrow> v)"

text \<open>
  \<^verbatim>\<open>signal["quantity"] * signal["price"]\<close>: the price is a float; a JSON number times a
  float is a float, a JSON string times a float raises TypeError.
\<close>

fun py_mul :: "jval \<Rightarrow> real \<Rightarrow> py_error + real" where
  "py_mul (JNum q) p = Inr (q * p)"
| "py_mul (JStr s) p = Inl TypeError"

section \<open>The trade executor\<close>

text \<open>
  The attributes of the mapped class \<^verbatim>\<open>Trade\<close> (\<^verbatim>\<open>models.py\<close>, lines 103 to 124): its
  columns and its two relationships.
\<close>

definition Trade_attributes :: "string list" where
  "Trade_attributes =
     [''id'', ''user_id'', ''portfolio_id'', ''strategy_id'', ''exchange_name'', ''symbol'',
      ''asset_class'', ''side'', ''order_type'', ''quantity'', ''price'', ''executed_price'',
      ''status'', ''order_id'', ''fees'', ''profit_loss'', ''executed_at'', ''created_at'',
      ''portfolio'', ''strategy'']"

text \<open>
  \<^verbatim>\<open>session.py\<close> sets \<^verbatim>\<open>Base = declarative_base()\<close>. The constructor that this base gives a
  mapped class takes keywords only and raises TypeError for a keyword that is no attribute
  of the class; otherwise it sets the attributes and returns the object.
\<close>

definition declarative_constructor :: "string list \<Rightarrow> string list \<Rightarrow> 'a \<Rightarrow> py_error + 'a" where
  "declarative_constructor attrs keywords obj =
     (if list_all (\<lambda>k. k \<in> set attrs) keywords then Inr obj else Inl TypeError)"

text \<open>
  The body of the \<^verbatim>\<open>try\<close> of \<^verbatim>\<open>_execute_trade(session, portfolio, signal)\<close>: the total
  value, the call of the \<^verbatim>\<open>Trade\<close> constructor with the nine keywords of the source,
  \<^verbatim>\<open>session.add\<close> and \<^verbatim>\<open>session.commit\<close>. The database value is the committed state.
\<close>

definition execute_trade_try :: "env \<Rightarrow> database \<Rightarrow> portfolio \<Rightarrow> signal \<Rightarrow> py_error + (database \<times> trade)" where
  "execute_trade_try e db pf sg =
     bind_err (py_mul (quantity sg) (price sg)) (\<lambda>total_value.
     bind_err (declarative_constructor Trade_attributes
                 [''portfolio_id'', ''symbol'', ''side'', ''quantity'', ''price'', ''total_value'',
                  ''order_type'', ''status'', ''executed_at'']
                 \<lparr> t_user_id = None, t_portfolio_id = Some (p_id pf), t_strategy_id = None,
                    t_exchange_name = None, t_symbol = Some (symbol sg), t_asset_class = None,
                    t_side = Some (side sg), t_order_type = Some ''market'',
                    t_quantity = Some (quantity sg), t_price = Some (price sg),
                    t_executed_price = None, t_status = Some ''executed'', t_order_id = None,
                    t_fees = None, t_profit_loss = None, t_executed_at = Some (utcnow e) \<rparr>) (\<lambda>tr.
     if raises e CommitTrade then Inl DatabaseError
     else Inr (db\<lparr>trades := trades db @ [tr]\<rparr>, tr)))"

text \<open>
  \<^verbatim>\<open>_execute_trade\<close>: the handler logs the exception, rolls the session back and returns
  \<^verbatim>\<open>None\<close>. No Portfolio or Position row is read or written.
\<close>

definition execute_trade :: "env \<Rightarrow> database \<Rightarrow> portfolio \<Rightarrow> signal \<Rightarrow> database \<times> trade option" where
  "execute_trade e db pf sg =
     (case execute_trade_try e db pf sg of
        Inl err \<Rightarrow> (db, None)
      | Inr (db', tr) \<Rightarrow> (db', Some tr))"

section \<open>The market data provider\<close>

text \<open>
  \<^verbatim>\<open>random.uniform(a, b)\<close> is \<^verbatim>\<open>a + (b - a) * random()\<close>. \<^verbatim>\<open>round(x, 2)\<close> is modelled on
  the reals, a tie going up; Python rounds the float's binary value, a tie going to the
  even digit.
\<close>

definition uniform :: "real \<Rightarrow> real \<Rightarrow> real \<Rightarrow> real" where
  "uniform a b u = a + (b - a) * u"

definition round2 :: "real \<Rightarrow> real" where
  "round2 x = real_of_int (round (x * 100)) / 100"

text \<open>One iteration of the loop of \<^verbatim>\<open>_get_sample_bars\<close>, and the loop over \<^verbatim>\<open>range(limit)\<close>.\<close>

definition sample_bar :: "market \<Rightarrow> nat \<Rightarrow> nat \<Rightarrow> bar" where
  "sample_bar m limit i =
     (let base_price = 150;
          opn = base_price + uniform (- 2) 2 (rand_unit m (4 * i));
          cls = opn + uniform (- 1) 1 (rand_unit m (4 * i + 1));
          hgh = max opn cls + uniform 0 0.5 (rand_unit m (4 * i + 2));
          lw = min opn cls - uniform 0 0.5 (rand_unit m (4 * i + 3))
      in \<lparr> timestamp = now m - int (limit - i), open_price = round2 opn,
           high_price = round2 hgh, low_price = round2 lw, close_price = round2 cls,
           volume = rand_int m i \<rparr>)"

definition get_sample_bars :: "market \<Rightarrow> jval \<Rightarrow> nat \<Rightarrow> bar list" where
  "get_sample_bars m symb limit = map (sample_bar m limit) [0..<limit]"

text \<open>
  \<^verbatim>\<open>WebullService.get_bars\<close>: sample bars without a client, when the SDK call or a
  conversion raises, and when the response holds no data; the converted bars otherwise.
\<close>

definition get_bars :: "market \<Rightarrow> jval \<Rightarrow> string \<Rightarrow> nat \<Rightarrow> bar list" where
  "get_bars m symb timeframe limit =
     (if \<not> client m then get_sample_bars m symb limit
      else (case sdk_get_bars m symb timeframe limit of
              None \<Rightarrow> get_sample_bars m symb limit
            | Some data \<Rightarrow> if data \<noteq> [] then data else get_sample_bars m symb limit))"

section \<open>The signal checks\<close>

text \<open>\<^verbatim>\<open>xs[-1]\<close> raises IndexError on an empty array. A comparison with NaN is false.\<close>

definition py_last :: "'a list \<Rightarrow> py_error + 'a" where
  "py_last xs = (if xs = [] then Inl IndexError else Inr (last xs))"

fun float_lt :: "real option \<Rightarrow> real option \<Rightarrow> bool" where
  "float_lt (Some a) (Some b) = (a < b)"
| "float_lt _ _ = False"

text \<open>
  The body of the outer \<^verbatim>\<open>try\<close> of \<^verbatim>\<open>_check_momentum_signal\<close>: \<open>Inl\<close> is an exception
  that reaches the handler, \<open>Inr\<close> a returned value.
\<close>

definition check_momentum_signal_try :: "market \<Rightarrow> strategy \<Rightarrow> py_error + signal option" where
  "check_momentum_signal_try m st =
     (case talib m of
        None \<Rightarrow> Inr None
      | Some ta \<Rightarrow>
          (let symb = dict_get (parameters st) ''symbol'' (JStr ''AAPL'');
               bars = get_bars m symb ''1D'' 100
           in if bars = [] \<or> length bars < 50 then Inr None
              else
                (let closes = map close_price bars in
                 bind_err (RSI ta closes 14) (\<lambda>rsi.
                 bind_err (MACD ta closes 12 26 9) (\<lambda>(macd, sgnl, hist).
                 bind_err (py_last rsi) (\<lambda>current_rsi.
                 bind_err (py_last macd) (\<lambda>current_macd.
                 bind_err (py_last sgnl) (\<lambda>current_signal.
                 bind_err (py_last closes) (\<lambda>current_price.
                   if float_lt current_rsi (Some 30) \<and> float_lt current_signal current_macd
                   then Inr (Some \<lparr> symbol = symb, side = ''BUY'',
                                     quantity = dict_get (parameters st) ''quantity'' (JNum 10),
                                     price = current_price \<rparr>)
                   else if float_lt (Some 70) current_rsi \<and> float_lt current_macd current_signal
                   then Inr (Some \<lparr> symbol = symb, side = ''SELL'',
                                     quantity = dict_get (parameters st) ''quantity'' (JNum 10),
                                     price = current_price \<rparr>)
                   else Inr None)))))))))"

text \<open>\<^verbatim>\<open>_check_momentum_signal\<close>: the handler logs the exception and returns \<^verbatim>\<open>None\<close>.\<close>

definition check_momentum_signal :: "market \<Rightarrow> strategy \<Rightarrow> signal option" where
  "check_momentum_signal m st =
     (case check_momentum_signal_try m st of Inl err \<Rightarrow> None | Inr r \<Rightarrow> r)"

definition check_mean_reversion_signal_try :: "market \<Rightarrow> strategy \<Rightarrow> py_error + signal option" where
  "check_mean_reversion_signal_try m st =
     (case talib m of
        None \<Rightarrow> Inr None
      | Some ta \<Rightarrow>
          (let symb = dict_get (parameters st) ''symbol'' (JStr ''AAPL'');
               bars = get_bars m symb ''1D'' 50
           in if bars = [] \<or> length bars < 20 then Inr None
              else
                (let closes = map close_price bars in
                 bind_err (BBANDS ta closes 20 2 2) (\<lambda>(upper, middle, lower).
                 bind_err (py_last closes) (\<lambda>current_price.
                 bind_err (py_last upper) (\<lambda>current_upper.
                 bind_err (py_last lower) (\<lambda>current_lower.
                 bind_err (py_last middle) (\<lambda>current_middle.
                   if float_lt (Some current_price) current_lower
                   then Inr (Some \<lparr> symbol = symb, side = ''BUY'',
                                     quantity = dict_get (parameters st) ''quantity'' (JNum 10),
                                     price = current_price \<rparr>)
                   else if float_lt current_upper (Some current_price)
                   then Inr (Some \<lparr> symbol = symb, side = ''SELL'',
                                     quantity = dict_get (parameters st) ''quantity'' (JNum 10),
                                     price = current_price \<rparr>)
                   else Inr None))))))))"

definition check_mean_reversion_signal :: "market \<Rightarrow> strategy \<Rightarrow> signal option" where
  "check_mean_reversion_signal m st =
     (case check_mean_reversion_signal_try m st of Inl err \<Rightarrow> None | Inr r \<Rightarrow> r)"

section \<open>The execution job\<close>

text \<open>
  The dictionary that \<^verbatim>\<open>execute_strategy\<close> returns: two keys on the error paths, four on
  success.
\<close>

record job_result =
  status :: string
  message :: "string option"
  strategy_id :: "string option"
  trades_executed :: "nat option"
  executed_at :: "int option"

definition error_result :: "string \<Rightarrow> job_result" where
  "error_result msg = \<lparr> status = ''error'', message = Some msg, strategy_id = None,
                         trades_executed = None, executed_at = None \<rparr>"

definition success_result :: "string \<Rightarrow> nat \<Rightarrow> int \<Rightarrow> job_result" where
  "success_result sid n t = \<lparr> status = ''success'', message = None, strategy_id = Some sid,
                              trades_executed = Some n, executed_at = Some t \<rparr>"

text \<open>\<^verbatim>\<open>str(e)\<close> in the handler of \<^verbatim>\<open>execute_strategy\<close>.\<close>

fun str_error :: "py_error \<Rightarrow> string" where
  "str_error ImportError = ''ImportError''"
| "str_error TypeError = ''TypeError''"
| "str_error IndexError = ''IndexError''"
| "str_error ValueError = ''badly formed hexadecimal UUID string''"
| "str_error DatabaseError = ''DatabaseError''"

text \<open>
  The \<^verbatim>\<open>if signal: trade = _execute_trade(...); if trade: trades_executed += 1\<close> of both
  branches.
\<close>

definition trade_on_signal :: "env \<Rightarrow> database \<Rightarrow> portfolio \<Rightarrow> signal option \<Rightarrow> database \<times> nat" where
  "trade_on_signal e db pf sgl =
     (case sgl of
        None \<Rightarrow> (db, 0)
      | Some sg \<Rightarrow>
          (case execute_trade e db pf sg of
             (db', None) \<Rightarrow> (db', 0)
           | (db', Some tr) \<Rightarrow> (db', 1)))"

text \<open>
  \<^verbatim>\<open>execute_strategy(self, strategy_id)\<close>. The first component of the result is the
  committed state after the task; the second is the returned dictionary (\<open>Inr\<close>) or the
  exception that leaves the task (\<open>Inl\<close>).

  The first statement of the \<^verbatim>\<open>try\<close> reads \<^verbatim>\<open>self.session\<close>. Without a session factory
  this raises TypeError; the handler then calls \<^verbatim>\<open>self.session.rollback()\<close>, which raises
  the same TypeError outside any \<^verbatim>\<open>try\<close>, and the task returns nothing. With a session,
  every exception inside the \<^verbatim>\<open>try\<close> ends in the handler, which rolls the session back
  (the committed state stays) and returns an error dictionary. The assignment to
  \<^verbatim>\<open>strategy.last_executed_at\<close> sets no mapped column, so the final commit writes nothing.
\<close>

definition execute_strategy :: "env \<Rightarrow> database \<Rightarrow> string \<Rightarrow> database \<times> (py_error + job_result)" where
  "execute_strategy e db sid =
     (if \<not> session_local e then (db, Inl TypeError)
      else
        (case UUID e sid of
           None \<Rightarrow> (db, Inr (error_result (str_error ValueError)))
         | Some u \<Rightarrow>
             if raises e QueryStrategy then (db, Inr (error_result (str_error DatabaseError)))
             else
               (case find (\<lambda>s. s_id s = u \<and> is_active s) (strategies db) of
                  None \<Rightarrow> (db, Inr (error_result ''Strategy not found or inactive''))
                | Some st \<Rightarrow>
                    if raises e QueryPortfolio
                    then (db, Inr (error_result (str_error DatabaseError)))
                    else
                      (case find (\<lambda>p. p_id p = s_portfolio_id st) (portfolios db) of
                         None \<Rightarrow> (db, Inr (error_result ''Portfolio not found''))
                       | Some pf \<Rightarrow>
                           (let (db', n) =
                                  (if strategy_type st = ''momentum''
                                   then trade_on_signal e db pf (check_momentum_signal (mkt e) st)
                                   else if strategy_type st = ''mean_reversion''
                                   then trade_on_signal e db pf
                                          (check_mean_reversion_signal (mkt e) st)
                                   else (db, 0))
                            in if raises e CommitFinal
                               then (db', Inr (error_result (str_error DatabaseError)))
                               else (db', Inr (success_result sid n (utcnow e))))))))"

text \<open>
  The status of the dictionary a task returned; \<open>None\<close> when the task raised and returned
  nothing.
\<close>

fun result_status :: "py_error + job_result \<Rightarrow> string option" where
  "result_status (Inl err) = None"
| "result_status (Inr r) = Some (status r)"

section \<open>Bollinger Bands\<close>

text \<open>
  Modelled from the spec: \<^verbatim>\<open>talib.BBANDS\<close> is not under \<^verbatim>\<open>src/\<close>. The spec's glossary
  defines Bollinger Bands as the moving average plus and minus k standard deviations; the
  moving average at bar i is the mean of the last n closes up to i, the deviation is that
  of the same window, and the first n - 1 entries of each output array are NaN.
\<close>

definition sma :: "real list \<Rightarrow> real" where
  "sma xs = sum_list xs / real (length xs)"

definition stddev :: "real list \<Rightarrow> real" where
  "stddev xs = sqrt (sma (map (\<lambda>x. (x - sma xs)\<^sup>2) xs))"

definition window :: "real list \<Rightarrow> nat \<Rightarrow> nat \<Rightarrow> real list" where
  "window xs n i = take n (drop (Suc i - n) xs)"

definition band :: "real list \<Rightarrow> nat \<Rightarrow> real \<Rightarrow> nat \<Rightarrow> real option" where
  "band xs n k i =
     (if Suc i < n then None else Some (sma (window xs n i) + k * stddev (window xs n i)))"

definition spec_BBANDS :: "real list \<Rightarrow> nat \<Rightarrow> real \<Rightarrow> real \<Rightarrow> py_error + (farray \<times> farray \<times> farray)" where
  "spec_BBANDS xs n nbdevup nbdevdn =
     Inr (map (band xs n nbdevup) [0..<length xs],
          map (band xs n 0) [0..<length xs],
          map (band xs n (- nbdevdn)) [0..<length xs])"

section \<open>Sequences of jobs and the spec's ledger\<close>







text \<open>
  The accuracy of an indicator library against the Bollinger Bands of the spec: both
  values are numbers and differ by at most \<open>eps\<close>.
\<close>

fun close_to :: "real \<Rightarrow> real option \<Rightarrow> real option \<Rightarrow> bool" where
  "close_to eps (Some x) (Some y) = (\<bar>x - y\<bar> \<le> eps)"
| "close_to eps _ _ = False"

section \<open>Example inputs\<close>

text \<open>
  The scenario of the spec: a mean-reversion strategy on a portfolio with balance 10000,
  and a provider that returns 20 flat bars at 100 followed by one bar at 80.
\<close>

definition flat_bar :: "real \<Rightarrow> bar" where
  "flat_bar c = \<lparr> timestamp = 0, open_price = c, high_price = c, low_price = c,
                  close_price = c, volume = 1000000 \<rparr>"

definition ex_bars :: "bar list" where
  "ex_bars = map flat_bar (replicate 20 100 @ [80])"

definition ex_talib :: talib_lib where
  "ex_talib = \<lparr> RSI = (\<lambda>xs n. Inr (map (\<lambda>x. Some 25) xs)),
                MACD = (\<lambda>xs a b c. Inr (map (\<lambda>x. Some 1) xs, map (\<lambda>x. Some 0) xs,
                                          map (\<lambda>x. Some 1) xs)),
                BBANDS = spec_BBANDS \<rparr>"

definition ex_market :: market where
  "ex_market = \<lparr> talib = Some ex_talib, client = True,
                 sdk_get_bars = (\<lambda>s tf n. Some ex_bars),
                 rand_unit = (\<lambda>k. 1 / 2), rand_int = (\<lambda>i. 1000000), now = 0 \<rparr>"

definition ex_sid :: string where
  "ex_sid = ''00000000-0000-0000-0000-00000000000b''"

definition ex_env :: env where
  "ex_env = \<lparr> session_local = True, UUID = (\<lambda>s. if s = ex_sid then Some 11 else None),
              raises = (\<lambda>op. False), utcnow = 0, mkt = ex_market \<rparr>"

definition ex_strategy :: strategy where
  "ex_strategy = \<lparr> s_id = 11, s_portfolio_id = 7, strategy_type = ''mean_reversion'',
                   parameters = [''symbol'' \<mapsto> JStr ''AAPL'', ''quantity'' \<mapsto> JNum 10],
                   is_active = True \<rparr>"

definition ex_portfolio :: portfolio where
  "ex_portfolio = \<lparr> p_id = 7, initial_balance = 10000, current_balance = 10000 \<rparr>"

definition ex_position :: position where
  "ex_position = \<lparr> pos_portfolio_id = 7, pos_symbol = ''AAPL'', pos_quantity = 0,
                   average_entry_price = 0 \<rparr>"

definition ex_db :: database where
  "ex_db = \<lparr> strategies = [ex_strategy], portfolios = [ex_portfolio], trades = [],
             positions = [ex_position] \<rparr>"

definition ex_signal :: "string \<Rightarrow> signal" where
  "ex_signal sd = \<lparr> symbol = JStr ''AAPL'', side = sd, quantity = JNum 10, price = 80 \<rparr>"



text \<open>
  A strategy with a configured symbol and quantity that differ from the defaults of the
  signal checks, and a TA-Lib whose bands for the series of the example are rounded to two
  decimals.
\<close>

definition ex_configured_strategy :: strategy where
  "ex_configured_strategy =
     ex_strategy\<lparr>parameters := [''symbol'' \<mapsto> JStr ''MSFT'', ''quantity'' \<mapsto> JNum 25]\<rparr>"

definition ex_rounded_talib :: talib_lib where
  "ex_rounded_talib =
     ex_talib\<lparr>BBANDS := (\<lambda>xs n u d. Inr (map (\<lambda>x. Some (10772 / 100)) xs,
                                         map (\<lambda>x. Some 99) xs,
                                         map (\<lambda>x. Some (9028 / 100)) xs))\<rparr>"

definition ex_rounded_market :: market where
  "ex_rounded_market = ex_market\<lparr>talib := Some ex_rounded_talib\<rparr>"

text \<open>
  Variants of the example: a momentum strategy whose provider returns 50 flat bars, and a
  provider that returns 10 bars only.
\<close>

definition ex_momentum_strategy :: strategy where
  "ex_momentum_strategy = ex_strategy\<lparr>strategy_type := ''momentum''\<rparr>"

definition ex_momentum_market :: market where
  "ex_momentum_market = ex_market\<lparr>sdk_get_bars := (\<lambda>s tf n. Some (map flat_bar (replicate 50 100)))\<rparr>"

definition ex_short_market :: market where
  "ex_short_market = ex_market\<lparr>sdk_get_bars := (\<lambda>s tf n. Some (map flat_bar (replicate 10 100)))\<rparr>"

text \<open>
  A provider whose SDK call raises, with a random source whose draws are 1/2 except for
  the open (1/8) and the close (0) of the last of 50 bars; a market with another clock and
  another random source; and a TA-Lib whose Bollinger Bands raise.
\<close>

definition ex_failing_market :: market where
  "ex_failing_market = \<lparr> talib = Some ex_talib, client = True,
       sdk_get_bars = (\<lambda>s tf n. None),
       rand_unit = (\<lambda>k. if k = 196 then 1 / 8 else if k = 197 then 0 else 1 / 2),
       rand_int = (\<lambda>i. 1000000), now = 0 \<rparr>"

definition ex_later_market :: market where
  "ex_later_market = ex_market\<lparr>rand_unit := (\<lambda>k. 0), rand_int := (\<lambda>i. 500000), now := 5\<rparr>"

definition ex_raising_market :: market where
  "ex_raising_market = ex_market\<lparr>talib := Some (ex_talib\<lparr>BBANDS := (\<lambda>xs n u d. Inl ValueError)\<rparr>)\<rparr>"

section \<open>Evaluating the example\<close>

lemma last_map_upt: "0 < n \<Longrightarrow> last (map f [0..<n]) = f (n - 1)"
  by (simp add: last_map)

lemma window_last:
  "n \<le> length xs \<Longrightarrow> 0 < n \<Longrightarrow> window xs n (length xs - 1) = drop (length xs - n) xs"
  by (cases xs) (auto simp add: window_def)

lemma band_last:
  assumes "n \<le> length xs" and "0 < n"
  shows "last (map (band xs n k) [0..<length xs]) =
     Some (sma (drop (length xs - n) xs) + k * stddev (drop (length xs - n) xs))"
proof -
  have pos: "0 < length xs" using assms by linarith
  then have suc: "Suc (length xs - 1) = length xs" by simp
  have "last (map (band xs n k) [0..<length xs]) = band xs n k (length xs - 1)"
    using pos by (rule last_map_upt)
  also have "\<dots> = Some (sma (window xs n (length xs - 1)) + k * stddev (window xs n (length xs - 1)))"
    using assms(1) by (simp only: band_def suc) simp
  finally show ?thesis by (simp only: window_last [OF assms])
qed

text \<open>
  With the Bollinger Bands of the spec, the mean-reversion check on at least 20 bars
  compares the latest close with the mean of the last 20 closes minus and plus twice their
  standard deviation.
\<close>

lemma mean_reversion_spec:
  assumes "talib m = Some ta" and "BBANDS ta = spec_BBANDS"
    and "20 \<le> length (get_bars m (dict_get (parameters st) ''symbol'' (JStr ''AAPL'')) ''1D'' 50)"
  shows "check_mean_reversion_signal m st =
     (let symb = dict_get (parameters st) ''symbol'' (JStr ''AAPL'');
          closes = map close_price (get_bars m symb ''1D'' 50);
          w = drop (length closes - 20) closes
      in if last closes < sma w - 2 * stddev w
         then Some \<lparr> symbol = symb, side = ''BUY'',
                      quantity = dict_get (parameters st) ''quantity'' (JNum 10), price = last closes \<rparr>
         else if sma w + 2 * stddev w < last closes
         then Some \<lparr> symbol = symb, side = ''SELL'',
                      quantity = dict_get (parameters st) ''quantity'' (JNum 10), price = last closes \<rparr>
         else None)"
proof -
  let ?bars = "get_bars m (dict_get (parameters st) ''symbol'' (JStr ''AAPL'')) ''1D'' 50"
  let ?cl = "map close_price ?bars"
  have len: "20 \<le> length ?cl" "0 < length ?cl" "?bars \<noteq> []" "?cl \<noteq> []" using assms(3) by auto
  have bl: "\<And>k. last (map (band ?cl 20 k) [0..<length ?cl]) =
     Some (sma (drop (length ?cl - 20) ?cl) + k * stddev (drop (length ?cl - 20) ?cl))"
    using len(1) by (intro band_last) simp_all
  show ?thesis
    using assms len bl
    by (simp add: check_mean_reversion_signal_def check_mean_reversion_signal_try_def
        Let_def bind_err_def spec_BBANDS_def py_last_def del: length_map)
qed

lemma get_bars_ex: "get_bars ex_market s tf n = ex_bars"
  by (simp add: get_bars_def ex_market_def ex_bars_def)

lemma ex_closes: "map close_price ex_bars = replicate 20 100 @ [80]"
  by (simp add: ex_bars_def flat_bar_def comp_def)

lemma sma_ex: "sma (replicate 19 100 @ [80]) = 99"
  by (simp add: sma_def sum_list_replicate)

lemma stddev_ex: "stddev (replicate 19 100 @ [80]) = sqrt 19"
  by (simp add: stddev_def sma_ex) (simp add: sma_def sum_list_replicate)

lemma sqrt_19: "sqrt 19 < 5"
  by (rule real_less_lsqrt) simp_all

lemma ex_params:
  "dict_get (parameters ex_strategy) ''symbol'' d = JStr ''AAPL''"
  "dict_get (parameters ex_strategy) ''quantity'' d = JNum 10"
  by (simp_all add: dict_get_def ex_strategy_def)

lemma ex_talib_facts: "talib ex_market = Some ex_talib" "BBANDS ex_talib = spec_BBANDS"
  by (simp_all add: ex_market_def ex_talib_def)

lemma ex_bars_length:
  "20 \<le> length (get_bars ex_market (dict_get (parameters ex_strategy) ''symbol'' (JStr ''AAPL'')) ''1D'' 50)"
  by (simp add: get_bars_ex ex_bars_def)

lemma check_mean_reversion_ex:
  "check_mean_reversion_signal ex_market ex_strategy = Some (ex_signal ''BUY'')"
  using sqrt_19
  by (simp add: mean_reversion_spec [OF ex_talib_facts ex_bars_length] get_bars_ex ex_closes
      ex_params sma_ex stddev_ex ex_signal_def Let_def)

lemma find_ex:
  "find (\<lambda>s. s_id s = 11 \<and> is_active s) (strategies ex_db) = Some ex_strategy"
  "find (\<lambda>p. p_id p = s_portfolio_id ex_strategy) (portfolios ex_db) = Some ex_portfolio"
  "strategy_type ex_strategy = ''mean_reversion''"
  by (simp_all add: ex_db_def ex_strategy_def ex_portfolio_def)

lemma ex_env_facts:
  "session_local ex_env" "UUID ex_env ex_sid = Some 11" "raises ex_env op = False"
  "mkt ex_env = ex_market" "utcnow ex_env = 0"
  by (simp_all add: ex_env_def)

section \<open>Properties of the trade executor\<close>

text \<open>
  The constructor call of the source names the keyword \<^verbatim>\<open>total_value\<close>, which is no
  attribute of \<^verbatim>\<open>Trade\<close>: the call raises for every signal, so the body of the \<^verbatim>\<open>try\<close>
  never reaches the commit and the executor returns \<^verbatim>\<open>None\<close> with the database as it was.
\<close>

lemma constructor_raises:
  "declarative_constructor Trade_attributes
     [''portfolio_id'', ''symbol'', ''side'', ''quantity'', ''price'', ''total_value'',
      ''order_type'', ''status'', ''executed_at''] obj = Inl TypeError"
  by (simp add: declarative_constructor_def Trade_attributes_def)

lemma execute_trade_try_raises: "execute_trade_try e db pf sg = Inl TypeError"
  by (cases "quantity sg") (simp_all add: execute_trade_try_def bind_err_def constructor_raises)

lemma execute_trade_none: "execute_trade e db pf sg = (db, None)"
  by (simp add: execute_trade_def execute_trade_try_raises)

lemma trade_on_signal_none: "trade_on_signal e db pf sgl = (db, 0)"
  by (cases sgl) (simp_all add: trade_on_signal_def execute_trade_none)

lemma execute_strategy_found:
  assumes "UUID e sid = Some u" and "\<not> raises e QueryStrategy"
    and "find (\<lambda>s. s_id s = u \<and> is_active s) (strategies db) = Some st"
    and "\<not> raises e QueryPortfolio"
    and "find (\<lambda>p. p_id p = s_portfolio_id st) (portfolios db) = Some pf"
  shows "execute_strategy e db sid =
     (db, if session_local e
          then Inr (if raises e CommitFinal then error_result (str_error DatabaseError)
                    else success_result sid 0 (utcnow e))
          else Inl TypeError)"
  using assms by (simp add: execute_strategy_def trade_on_signal_none)

lemma execute_strategy_fst: "fst (execute_strategy e db sid) = db"
  by (auto simp add: execute_strategy_def trade_on_signal_none Let_def split: option.splits)


lemma execute_strategy_ex:
  "execute_strategy ex_env ex_db ex_sid = (ex_db, Inr (success_result ex_sid 0 0))"
  using execute_strategy_found [of ex_env ex_sid 11 ex_db ex_strategy ex_portfolio]
  by (simp add: ex_env_facts find_ex)

text \<open>
  C1, as the spec states it, fails: in the job of the example the signal check emits a BUY,
  the executor's constructor call raises, and instead of a typed error the caller receives
  \<^verbatim>\<open>None\<close>; the job then reports success with no executed trade instead of a failure.
\<close>

theorem C1_counterexample:
  "check_mean_reversion_signal (mkt ex_env) ex_strategy = Some (ex_signal ''BUY'') \<and>
   execute_trade_try ex_env ex_db ex_portfolio (ex_signal ''BUY'') = Inl TypeError \<and>
   execute_trade ex_env ex_db ex_portfolio (ex_signal ''BUY'') = (ex_db, None) \<and>
   execute_strategy ex_env ex_db ex_sid = (ex_db, Inr (success_result ex_sid 0 0)) \<and>
   status (success_result ex_sid 0 0) = ''success'' \<and>
   trades_executed (success_result ex_sid 0 0) = Some 0"
  by (simp add: ex_env_facts check_mean_reversion_ex execute_trade_try_raises
      execute_trade_none execute_strategy_ex success_result_def)

text \<open>
  C1 (amended). For every trade intent handed to the trade executor, if a step fails,
  nothing is written: the database is as before, so no partial state is observable, and
  the caller receives \<^verbatim>\<open>None\<close>, not a typed error. The job of a found strategy and portfolio
  whose intent fails then completes with the status success and no executed trade; its
  status is error only when its own final commit raises, and it returns nothing when no
  database session can be created. The executor never writes a Strategy, Portfolio or
  Position row.
\<close>

theorem C1_failed_trade_is_silent:
  "(execute_trade_try e db pf sg = Inl err \<longrightarrow> execute_trade e db pf sg = (db, None)) \<and>
   (UUID e sid = Some u \<and> \<not> raises e QueryStrategy \<and>
    find (\<lambda>s. s_id s = u \<and> is_active s) (strategies db) = Some st \<and>
    \<not> raises e QueryPortfolio \<and>
    find (\<lambda>p. p_id p = s_portfolio_id st) (portfolios db) = Some pf \<and>
    (strategy_type st = ''momentum'' \<and> check_momentum_signal (mkt e) st = Some sg \<or>
     strategy_type st = ''mean_reversion'' \<and> check_mean_reversion_signal (mkt e) st = Some sg) \<and>
    execute_trade_try e db pf sg = Inl err \<longrightarrow>
      execute_strategy e db sid =
        (db, if session_local e
             then Inr (if raises e CommitFinal then error_result (str_error DatabaseError)
                       else success_result sid 0 (utcnow e))
             else Inl TypeError)) \<and>
   strategies (fst (execute_trade e db pf sg)) = strategies db \<and>
   portfolios (fst (execute_trade e db pf sg)) = portfolios db \<and>
   positions (fst (execute_trade e db pf sg)) = positions db"
proof (intro conjI impI)
  assume "execute_trade_try e db pf sg = Inl err"
  then show "execute_trade e db pf sg = (db, None)"
    by (simp add: execute_trade_def)
next
  assume h: "UUID e sid = Some u \<and> \<not> raises e QueryStrategy \<and>
    find (\<lambda>s. s_id s = u \<and> is_active s) (strategies db) = Some st \<and>
    \<not> raises e QueryPortfolio \<and>
    find (\<lambda>p. p_id p = s_portfolio_id st) (portfolios db) = Some pf \<and>
    (strategy_type st = ''momentum'' \<and> check_momentum_signal (mkt e) st = Some sg \<or>
     strategy_type st = ''mean_reversion'' \<and> check_mean_reversion_signal (mkt e) st = Some sg) \<and>
    execute_trade_try e db pf sg = Inl err"
  then have t: "execute_trade e db pf sg = (db, None)"
    by (simp add: execute_trade_def)
  have "(if strategy_type st = ''momentum''
         then trade_on_signal e db pf (check_momentum_signal (mkt e) st)
         else if strategy_type st = ''mean_reversion''
         then trade_on_signal e db pf (check_mean_reversion_signal (mkt e) st)
         else (db, 0)) = (db, 0)"
    using h t by (auto simp add: trade_on_signal_def)
  then show "execute_strategy e db sid =
        (db, if session_local e
             then Inr (if raises e CommitFinal then error_result (str_error DatabaseError)
                       else success_result sid 0 (utcnow e))
             else Inl TypeError)"
    using h by (simp add: execute_strategy_def)
next
  show "strategies (fst (execute_trade e db pf sg)) = strategies db"
    "portfolios (fst (execute_trade e db pf sg)) = portfolios db"
    "positions (fst (execute_trade e db pf sg)) = positions db"
    by (cases "execute_trade_try e db pf sg"; auto simp add: execute_trade_def
        execute_trade_try_def bind_err_def split: sum.splits if_splits)+
qed

theorem C1_failed_trade_is_silent_witness:
  "execute_trade_try ex_env ex_db ex_portfolio (ex_signal ''BUY'') = Inl TypeError \<and>
   execute_trade ex_env ex_db ex_portfolio (ex_signal ''BUY'') = (ex_db, None) \<and>
   UUID ex_env ex_sid = Some 11 \<and>
   find (\<lambda>s. s_id s = 11 \<and> is_active s) (strategies ex_db) = Some ex_strategy \<and>
   find (\<lambda>p. p_id p = s_portfolio_id ex_strategy) (portfolios ex_db) = Some ex_portfolio \<and>
   strategy_type ex_strategy = ''mean_reversion'' \<and>
   check_mean_reversion_signal (mkt ex_env) ex_strategy = Some (ex_signal ''BUY'') \<and>
   execute_strategy ex_env ex_db ex_sid = (ex_db, Inr (success_result ex_sid 0 0))"
  using C1_failed_trade_is_silent [where e = ex_env and db = ex_db and pf = ex_portfolio
      and sg = "ex_signal ''BUY''" and err = TypeError and sid = ex_sid and u = 11
      and st = ex_strategy]
  by (simp add: ex_env_facts find_ex check_mean_reversion_ex execute_trade_try_raises)

section \<open>The ledger\<close>







section \<open>The job's result\<close>

lemma find_None_active:
  "\<forall>s\<in>set xs. is_active s \<longrightarrow> Some (s_id s) \<noteq> Some u \<Longrightarrow>
   find (\<lambda>s. s_id s = u \<and> is_active s) xs = None"
  by (auto simp add: find_None_iff)

lemma find_None_portfolio:
  "\<forall>p\<in>set xs. p_id p \<noteq> k \<Longrightarrow> find (\<lambda>p. p_id p = k) xs = None"
  by (auto simp add: find_None_iff)

lemma execute_strategy_status:
  "result_status (snd (execute_strategy e db sid)) =
     (if session_local e
      then (if result_status (snd (execute_strategy e db sid)) = Some ''success''
            then Some ''success'' else Some ''error'')
      else None)"
  by (auto simp add: execute_strategy_def trade_on_signal_none error_result_def
      success_result_def Let_def split: option.splits)

lemma execute_strategy_no_strategy:
  assumes "session_local e"
    and "\<forall>s\<in>set (strategies db). is_active s \<longrightarrow> Some (s_id s) \<noteq> UUID e sid"
  shows "result_status (snd (execute_strategy e db sid)) = Some ''error''"
    and "fst (execute_strategy e db sid) = db"
    and "execute_strategy (e\<lparr>mkt := m\<rparr>) db sid = execute_strategy e db sid"
proof -
  have n: "\<And>u. UUID e sid = Some u \<Longrightarrow>
      find (\<lambda>s. s_id s = u \<and> is_active s) (strategies db) = None"
    using assms(2) by (intro find_None_active) simp
  show "result_status (snd (execute_strategy e db sid)) = Some ''error''"
    using assms(1) by (cases "UUID e sid") (simp_all add: execute_strategy_def error_result_def n)
  show "fst (execute_strategy e db sid) = db"
    by (rule execute_strategy_fst)
  show "execute_strategy (e\<lparr>mkt := m\<rparr>) db sid = execute_strategy e db sid"
    by (cases "UUID e sid") (simp_all add: execute_strategy_def n)
qed

lemma execute_strategy_no_portfolio:
  assumes "session_local e" and "UUID e sid = Some u"
    and "find (\<lambda>s. s_id s = u \<and> is_active s) (strategies db) = Some st"
    and "\<forall>p\<in>set (portfolios db). p_id p \<noteq> s_portfolio_id st"
  shows "result_status (snd (execute_strategy e db sid)) = Some ''error''"
    and "fst (execute_strategy e db sid) = db"
    and "execute_strategy (e\<lparr>mkt := m\<rparr>) db sid = execute_strategy e db sid"
proof -
  have n: "find (\<lambda>p. p_id p = s_portfolio_id st) (portfolios db) = None"
    using assms(4) by (rule find_None_portfolio)
  show "result_status (snd (execute_strategy e db sid)) = Some ''error''"
    using assms(1-3) by (simp add: execute_strategy_def error_result_def n)
  show "fst (execute_strategy e db sid) = db"
    by (rule execute_strategy_fst)
  show "execute_strategy (e\<lparr>mkt := m\<rparr>) db sid = execute_strategy e db sid"
    using assms(2,3) by (simp add: execute_strategy_def n)
qed

text \<open>
  C4, as the spec states it, fails: the job of an inactive strategy returns the status
  error, which is none of success, skipped and failed; and without a session factory the
  job returns no result at all.
\<close>

theorem C4_counterexample:
  "snd (execute_strategy ex_env
      (ex_db\<lparr>strategies := [ex_strategy\<lparr>is_active := False\<rparr>]\<rparr>) ex_sid) =
     Inr (error_result ''Strategy not found or inactive'') \<and>
   status (error_result ''Strategy not found or inactive'') = ''error'' \<and>
   ''error'' \<notin> {''success'', ''skipped'', ''failed''} \<and>
   snd (execute_strategy (ex_env\<lparr>session_local := False\<rparr>) ex_db ex_sid) = Inl TypeError"
  by (simp add: execute_strategy_def ex_env_facts error_result_def)

text \<open>
  C4 (amended). For every execution job that returns a result, the status is success or
  error. A job returns no result, the exception leaving the task, exactly when no database
  session can be created. With a session, a job for which no active strategy row has the
  job's id (the row is missing or inactive, or the id is malformed) returns the status
  error, writes nothing and does not evaluate signals: its outcome is the same whatever the
  market environment. A job whose strategy is found and whose portfolio row is missing
  does the same.
\<close>

theorem C4_job_status:
  "(result_status (snd (execute_strategy e db sid)) = Some ''success'' \<or>
    result_status (snd (execute_strategy e db sid)) = Some ''error'' \<or>
    result_status (snd (execute_strategy e db sid)) = None) \<and>
   ((result_status (snd (execute_strategy e db sid)) = None) = (\<not> session_local e)) \<and>
   (session_local e \<and>
    (\<forall>s\<in>set (strategies db). is_active s \<longrightarrow> Some (s_id s) \<noteq> UUID e sid) \<longrightarrow>
      result_status (snd (execute_strategy e db sid)) = Some ''error'' \<and>
      fst (execute_strategy e db sid) = db \<and>
      execute_strategy (e\<lparr>mkt := m\<rparr>) db sid = execute_strategy e db sid) \<and>
   (session_local e \<and> UUID e sid = Some u \<and>
    find (\<lambda>s. s_id s = u \<and> is_active s) (strategies db) = Some st \<and>
    (\<forall>p\<in>set (portfolios db). p_id p \<noteq> s_portfolio_id st) \<longrightarrow>
      result_status (snd (execute_strategy e db sid)) = Some ''error'' \<and>
      fst (execute_strategy e db sid) = db \<and>
      execute_strategy (e\<lparr>mkt := m\<rparr>) db sid = execute_strategy e db sid)"
proof (intro conjI impI)
  show "result_status (snd (execute_strategy e db sid)) = Some ''success'' \<or>
    result_status (snd (execute_strategy e db sid)) = Some ''error'' \<or>
    result_status (snd (execute_strategy e db sid)) = None"
    using execute_strategy_status [of e db sid] by (metis (full_types))
next
  show "(result_status (snd (execute_strategy e db sid)) = None) = (\<not> session_local e)"
    using execute_strategy_status [of e db sid] by (metis (full_types) option.distinct(1))
next
  assume h: "session_local e \<and>
    (\<forall>s\<in>set (strategies db). is_active s \<longrightarrow> Some (s_id s) \<noteq> UUID e sid)"
  show "result_status (snd (execute_strategy e db sid)) = Some ''error''"
    using h by (intro execute_strategy_no_strategy) simp_all
  show "fst (execute_strategy e db sid) = db"
    by (rule execute_strategy_fst)
  show "execute_strategy (e\<lparr>mkt := m\<rparr>) db sid = execute_strategy e db sid"
    using h by (intro execute_strategy_no_strategy) simp_all
next
  assume h: "session_local e \<and> UUID e sid = Some u \<and>
    find (\<lambda>s. s_id s = u \<and> is_active s) (strategies db) = Some st \<and>
    (\<forall>p\<in>set (portfolios db). p_id p \<noteq> s_portfolio_id st)"
  show "result_status (snd (execute_strategy e db sid)) = Some ''error''"
    using h by (intro execute_strategy_no_portfolio [of e sid u db st]) simp_all
  show "fst (execute_strategy e db sid) = db"
    by (rule execute_strategy_fst)
  show "execute_strategy (e\<lparr>mkt := m\<rparr>) db sid = execute_strategy e db sid"
    using h by (intro execute_strategy_no_portfolio [of e sid u db st]) simp_all
qed

theorem C4_job_status_witness:
  "session_local ex_env \<and>
   strategies (ex_db\<lparr>strategies := [ex_strategy\<lparr>is_active := False\<rparr>]\<rparr>) =
     [ex_strategy\<lparr>is_active := False\<rparr>] \<and>
   result_status (snd (execute_strategy ex_env
      (ex_db\<lparr>strategies := [ex_strategy\<lparr>is_active := False\<rparr>]\<rparr>) ex_sid)) = Some ''error'' \<and>
   fst (execute_strategy ex_env
      (ex_db\<lparr>strategies := [ex_strategy\<lparr>is_active := False\<rparr>]\<rparr>) ex_sid) =
     ex_db\<lparr>strategies := [ex_strategy\<lparr>is_active := False\<rparr>]\<rparr> \<and>
   UUID ex_env ex_sid = Some 11 \<and>
   find (\<lambda>s. s_id s = 11 \<and> is_active s) (strategies (ex_db\<lparr>portfolios := []\<rparr>)) =
     Some ex_strategy \<and>
   portfolios (ex_db\<lparr>portfolios := []\<rparr>) = [] \<and>
   fst (execute_strategy ex_env (ex_db\<lparr>portfolios := []\<rparr>) ex_sid) = ex_db\<lparr>portfolios := []\<rparr> \<and>
   result_status (snd (execute_strategy ex_env (ex_db\<lparr>portfolios := []\<rparr>) ex_sid)) = Some ''error'' \<and>
   result_status (snd (execute_strategy (ex_env\<lparr>session_local := False\<rparr>) ex_db ex_sid)) = None"
proof -
  have h0: "session_local ex_env" by (simp add: ex_env_facts)
  have h1: "\<forall>s\<in>set (strategies (ex_db\<lparr>strategies := [ex_strategy\<lparr>is_active := False\<rparr>]\<rparr>)).
      is_active s \<longrightarrow> Some (s_id s) \<noteq> UUID ex_env ex_sid"
    by simp
  have h2: "UUID ex_env ex_sid = Some 11" by (simp add: ex_env_facts)
  have h3: "find (\<lambda>s. s_id s = 11 \<and> is_active s) (strategies (ex_db\<lparr>portfolios := []\<rparr>)) =
     Some ex_strategy"
    by (simp add: find_ex)
  have h4: "\<forall>p\<in>set (portfolios (ex_db\<lparr>portfolios := []\<rparr>)). p_id p \<noteq> s_portfolio_id ex_strategy"
    by simp
  have a: "result_status (snd (execute_strategy ex_env
      (ex_db\<lparr>strategies := [ex_strategy\<lparr>is_active := False\<rparr>]\<rparr>) ex_sid)) = Some ''error'' \<and>
     fst (execute_strategy ex_env
      (ex_db\<lparr>strategies := [ex_strategy\<lparr>is_active := False\<rparr>]\<rparr>) ex_sid) =
     ex_db\<lparr>strategies := [ex_strategy\<lparr>is_active := False\<rparr>]\<rparr>"
    using h0 h1
      C4_job_status [where e = ex_env and sid = ex_sid and m = ex_market and u = 11
        and st = ex_strategy and db = "ex_db\<lparr>strategies := [ex_strategy\<lparr>is_active := False\<rparr>]\<rparr>"]
    by blast
  have b: "fst (execute_strategy ex_env (ex_db\<lparr>portfolios := []\<rparr>) ex_sid) = ex_db\<lparr>portfolios := []\<rparr> \<and>
     result_status (snd (execute_strategy ex_env (ex_db\<lparr>portfolios := []\<rparr>) ex_sid)) = Some ''error''"
    using h0 h2 h3 h4
      C4_job_status [where e = ex_env and sid = ex_sid and m = ex_market and u = 11
        and st = ex_strategy and db = "ex_db\<lparr>portfolios := []\<rparr>"]
    by blast
  have c: "result_status (snd (execute_strategy (ex_env\<lparr>session_local := False\<rparr>) ex_db ex_sid)) = None"
    using C4_job_status [where e = "ex_env\<lparr>session_local := False\<rparr>" and sid = ex_sid
        and db = ex_db and m = ex_market and u = 11 and st = ex_strategy]
    by simp
  show ?thesis using a b c h0 h2 h3 by simp
qed

section \<open>Properties of the signal checks\<close>

lemma momentum_decision:
  assumes "talib m = Some ta"
    and "symb = dict_get (parameters st) ''symbol'' (JStr ''AAPL'')"
    and "closes = map close_price (get_bars m symb ''1D'' 100)"
    and "50 \<le> length closes"
    and "RSI ta closes 14 = Inr rsi"
    and "MACD ta closes 12 26 9 = Inr (macd, sgnl, hist)"
    and "rsi \<noteq> []" and "macd \<noteq> []" and "sgnl \<noteq> []"
  shows "check_momentum_signal m st =
     (if float_lt (last rsi) (Some 30) \<and> float_lt (last sgnl) (last macd)
      then Some \<lparr> symbol = symb, side = ''BUY'',
                   quantity = dict_get (parameters st) ''quantity'' (JNum 10), price = last closes \<rparr>
      else if float_lt (Some 70) (last rsi) \<and> float_lt (last macd) (last sgnl)
      then Some \<lparr> symbol = symb, side = ''SELL'',
                   quantity = dict_get (parameters st) ''quantity'' (JNum 10), price = last closes \<rparr>
      else None)"
proof -
  let ?bars = "get_bars m symb ''1D'' 100"
  have len: "\<not> length ?bars < 50" "?bars \<noteq> []" "closes \<noteq> []"
    using assms(3,4) by auto
  show ?thesis
    using assms(1,5-9) len assms(2,3)
    by (simp add: check_momentum_signal_def check_momentum_signal_try_def
        Let_def bind_err_def py_last_def del: length_map)
qed

lemma float_lt_excl: "\<not> (float_lt a (Some 30) \<and> float_lt (Some 70) a)"
  by (cases a) simp_all

lemma short_momentum:
  "length (get_bars m (dict_get (parameters st) ''symbol'' (JStr ''AAPL'')) ''1D'' 100) < 50 \<Longrightarrow>
   check_momentum_signal m st = None"
  by (simp add: check_momentum_signal_def check_momentum_signal_try_def Let_def
      split: option.splits)

lemma short_mean_reversion:
  "length (get_bars m (dict_get (parameters st) ''symbol'' (JStr ''AAPL'')) ''1D'' 50) < 20 \<Longrightarrow>
   check_mean_reversion_signal m st = None"
  by (simp add: check_mean_reversion_signal_def check_mean_reversion_signal_try_def Let_def
      split: option.splits)

lemma execute_strategy_no_signal:
  assumes "UUID e sid = Some u" and "\<not> raises e QueryStrategy"
    and "find (\<lambda>s. s_id s = u \<and> is_active s) (strategies db) = Some st"
    and "\<not> raises e QueryPortfolio"
    and "find (\<lambda>p. p_id p = s_portfolio_id st) (portfolios db) = Some pf"
    and "strategy_type st = ''momentum'' \<Longrightarrow> check_momentum_signal (mkt e) st = None"
    and "strategy_type st = ''mean_reversion'' \<Longrightarrow> check_mean_reversion_signal (mkt e) st = None"
  shows "execute_strategy e db sid =
     (db, if session_local e
          then Inr (if raises e CommitFinal then error_result (str_error DatabaseError)
                    else success_result sid 0 (utcnow e))
          else Inl TypeError)"
  using assms by (simp add: execute_strategy_def trade_on_signal_def)

lemma mean_reversion_decision:
  assumes "talib m = Some ta"
    and "symb = dict_get (parameters st) ''symbol'' (JStr ''AAPL'')"
    and "closes = map close_price (get_bars m symb ''1D'' 50)"
    and "20 \<le> length closes"
    and "BBANDS ta closes 20 2 2 = Inr (upper, middle, lower)"
    and "upper \<noteq> []" and "middle \<noteq> []" and "lower \<noteq> []"
  shows "check_mean_reversion_signal m st =
     (if float_lt (Some (last closes)) (last lower)
      then Some \<lparr> symbol = symb, side = ''BUY'',
                   quantity = dict_get (parameters st) ''quantity'' (JNum 10), price = last closes \<rparr>
      else if float_lt (last upper) (Some (last closes))
      then Some \<lparr> symbol = symb, side = ''SELL'',
                   quantity = dict_get (parameters st) ''quantity'' (JNum 10), price = last closes \<rparr>
      else None)"
proof -
  let ?bars = "get_bars m symb ''1D'' 50"
  have len: "\<not> length ?bars < 20" "?bars \<noteq> []" "closes \<noteq> []"
    using assms(3,4) by auto
  show ?thesis
    using assms(1,5-8) len assms(2,3)
    by (simp add: check_mean_reversion_signal_def check_mean_reversion_signal_try_def
        Let_def bind_err_def py_last_def del: length_map)
qed

lemma float_lt_bands:
  "\<not> float_lt up lo \<Longrightarrow> \<not> (float_lt (Some p) lo \<and> float_lt up (Some p))"
  by (cases up; cases lo) auto

lemma sqrt_19_bounds: "4 \<le> sqrt 19" "sqrt 19 \<le> 9 / 2"
proof -
  show "4 \<le> sqrt 19" by (rule real_le_rsqrt) simp
  show "sqrt 19 \<le> 9 / 2" by (rule real_le_lsqrt) (simp_all add: power2_eq_square)
qed

lemma spec_lower_ex:
  "last (map (band (replicate 20 100 @ [80]) 20 (- 2))
           [0..<length (replicate 20 (100::real) @ [80])]) =
     Some (99 - 2 * sqrt 19)"
proof -
  have "last (map (band (replicate 20 100 @ [80]) 20 (- 2))
           [0..<length (replicate 20 (100::real) @ [80])]) =
     Some (sma (drop (length (replicate 20 (100::real) @ [80]) - 20) (replicate 20 100 @ [80])) +
           (- 2) * stddev (drop (length (replicate 20 (100::real) @ [80]) - 20)
                            (replicate 20 100 @ [80])))"
    by (rule band_last) simp_all
  also have "drop (length (replicate 20 (100::real) @ [80]) - 20) (replicate 20 100 @ [80]) =
      replicate 19 100 @ [80]"
    by simp
  finally show ?thesis by (simp add: sma_ex stddev_ex)
qed

lemma momentum_deterministic:
  assumes "talib m1 = talib m2"
    and "get_bars m1 (dict_get (parameters st) ''symbol'' (JStr ''AAPL'')) ''1D'' 100 =
         get_bars m2 (dict_get (parameters st) ''symbol'' (JStr ''AAPL'')) ''1D'' 100"
  shows "check_momentum_signal m1 st = check_momentum_signal m2 st"
  by (simp only: check_momentum_signal_def check_momentum_signal_try_def Let_def assms)

lemma mean_reversion_deterministic:
  assumes "talib m1 = talib m2"
    and "get_bars m1 (dict_get (parameters st) ''symbol'' (JStr ''AAPL'')) ''1D'' 50 =
         get_bars m2 (dict_get (parameters st) ''symbol'' (JStr ''AAPL'')) ''1D'' 50"
  shows "check_mean_reversion_signal m1 st = check_mean_reversion_signal m2 st"
  by (simp only: check_mean_reversion_signal_def check_mean_reversion_signal_try_def Let_def assms)

text \<open>
  C5. Let TA-Lib be installed and return its RSI(14) and MACD(12, 26, 9) arrays for the
  closes of the bars the provider returned, at least 50 of them. Then the momentum check
  emits a BUY exactly when the latest RSI is below 30 and the latest MACD line is above the
  latest signal line, a SELL exactly when the latest RSI is above 70 and the MACD line is
  below the signal line (both cannot hold at once), and nothing otherwise. The intent
  carries the latest close as its price and the quantity parameter of the strategy, which
  is the configured value when one is configured.
\<close>

theorem C5_momentum_signal:
  assumes "talib m = Some ta"
    and "symb = dict_get (parameters st) ''symbol'' (JStr ''AAPL'')"
    and "closes = map close_price (get_bars m symb ''1D'' 100)"
    and "50 \<le> length closes"
    and "RSI ta closes 14 = Inr rsi"
    and "MACD ta closes 12 26 9 = Inr (macd, sgnl, hist)"
    and "rsi \<noteq> []" and "macd \<noteq> []" and "sgnl \<noteq> []"
    and "intent = (\<lambda>sd. \<lparr> symbol = symb, side = sd,
                    quantity = dict_get (parameters st) ''quantity'' (JNum 10),
                    price = last closes \<rparr>)"
    and "buy = (float_lt (last rsi) (Some 30) \<and> float_lt (last sgnl) (last macd))"
    and "sell = (float_lt (Some 70) (last rsi) \<and> float_lt (last macd) (last sgnl))"
  shows "check_momentum_signal m st =
           (if buy then Some (intent ''BUY'') else if sell then Some (intent ''SELL'') else None) \<and>
         \<not> (buy \<and> sell) \<and>
         (parameters st ''quantity'' = Some q \<longrightarrow> quantity (intent sd) = q)"
proof -
  have "check_momentum_signal m st =
           (if buy then Some (intent ''BUY'') else if sell then Some (intent ''SELL'') else None)"
    unfolding assms(10-12) by (rule momentum_decision [OF assms(1-9)])
  moreover have "\<not> (buy \<and> sell)"
    unfolding assms(11,12) using float_lt_excl [of "last rsi"] by blast
  moreover have "parameters st ''quantity'' = Some q \<longrightarrow> quantity (intent sd) = q"
    by (simp add: assms(10) dict_get_def)
  ultimately show ?thesis by blast
qed

theorem C5_momentum_signal_witness:
  "talib ex_momentum_market = Some ex_talib \<and>
   50 \<le> length (map close_price (get_bars ex_momentum_market (JStr ''AAPL'') ''1D'' 100)) \<and>
   parameters ex_momentum_strategy ''quantity'' = Some (JNum 10) \<and>
   check_momentum_signal ex_momentum_market ex_momentum_strategy =
     Some \<lparr> symbol = JStr ''AAPL'', side = ''BUY'', quantity = JNum 10, price = 100 \<rparr>"
proof -
  let ?cl = "map close_price (get_bars ex_momentum_market (JStr ''AAPL'') ''1D'' 100)"
  have cl: "?cl = replicate 50 100"
    by (simp add: get_bars_def ex_momentum_market_def ex_market_def flat_bar_def comp_def)
  have ta: "talib ex_momentum_market = Some ex_talib"
    by (simp add: ex_momentum_market_def ex_market_def)
  have sy: "JStr ''AAPL'' = dict_get (parameters ex_momentum_strategy) ''symbol'' (JStr ''AAPL'')"
    by (simp add: ex_momentum_strategy_def ex_strategy_def dict_get_def)
  have qu: "parameters ex_momentum_strategy ''quantity'' = Some (JNum 10)"
    by (simp add: ex_momentum_strategy_def ex_strategy_def)
  have ln: "50 \<le> length ?cl" by (simp add: cl)
  have rs: "RSI ex_talib ?cl 14 = Inr (replicate 50 (Some 25))"
    by (simp add: cl ex_talib_def)
  have mc: "MACD ex_talib ?cl 12 26 9 =
      Inr (replicate 50 (Some 1), replicate 50 (Some 0), replicate 50 (Some 1))"
    by (simp add: cl ex_talib_def)
  have ne: "replicate 50 (Some (25::real)) \<noteq> []" "replicate 50 (Some (1::real)) \<noteq> []"
    "replicate 50 (Some (0::real)) \<noteq> []"
    by simp_all
  have "check_momentum_signal ex_momentum_market ex_momentum_strategy =
     Some \<lparr> symbol = JStr ''AAPL'', side = ''BUY'', quantity = JNum 10, price = 100 \<rparr>"
    using C5_momentum_signal [OF ta sy refl ln rs mc ne refl refl refl, of "JNum 10" "''BUY''"] qu
    by (simp add: cl)
  then show ?thesis using ta ln qu by blast
qed

text \<open>
  C6. Let TA-Lib be installed and return its Bollinger Bands(20, 2, 2) arrays for the closes
  of the bars the provider returned, at least 20 of them. Then the mean-reversion check
  emits a BUY exactly when the latest close is below the latest lower band, otherwise a
  SELL exactly when it is above the latest upper band, and nothing otherwise; where the
  lower band is not above the upper one, the two conditions exclude each other. The intent
  carries the latest close as its price and the quantity parameter of the strategy, which
  is the configured value when one is configured. For 20 flat bars at 100 followed by one
  bar at 80, with a library whose lower band is within 1 of the band of the spec, it emits
  a BUY at price 80.
\<close>

theorem C6_mean_reversion_signal:
  assumes "talib m = Some ta"
    and "symb = dict_get (parameters st) ''symbol'' (JStr ''AAPL'')"
    and "closes = map close_price (get_bars m symb ''1D'' 50)"
    and "20 \<le> length closes"
    and "BBANDS ta closes 20 2 2 = Inr (upper, middle, lower)"
    and "upper \<noteq> []" and "middle \<noteq> []" and "lower \<noteq> []"
    and "intent = (\<lambda>sd. \<lparr> symbol = symb, side = sd,
                    quantity = dict_get (parameters st) ''quantity'' (JNum 10),
                    price = last closes \<rparr>)"
    and "buy = float_lt (Some (last closes)) (last lower)"
    and "sell = float_lt (last upper) (Some (last closes))"
  shows "check_mean_reversion_signal m st =
           (if buy then Some (intent ''BUY'') else if sell then Some (intent ''SELL'') else None) \<and>
         (\<not> float_lt (last upper) (last lower) \<longrightarrow> \<not> (buy \<and> sell)) \<and>
         (parameters st ''quantity'' = Some q \<longrightarrow> quantity (intent sd) = q) \<and>
         (closes = replicate 20 100 @ [80] \<and> spec_BBANDS closes 20 2 2 = Inr (su, sm, sl) \<and>
          close_to 1 (last lower) (last sl) \<longrightarrow>
            check_mean_reversion_signal m st = Some (intent ''BUY'') \<and>
            price (intent ''BUY'') = 80)"
proof -
  have eq: "check_mean_reversion_signal m st =
           (if buy then Some (intent ''BUY'') else if sell then Some (intent ''SELL'') else None)"
    unfolding assms(9-11) by (rule mean_reversion_decision [OF assms(1-8)])
  have ex: "\<not> float_lt (last upper) (last lower) \<longrightarrow> \<not> (buy \<and> sell)"
    unfolding assms(10,11) using float_lt_bands [of "last upper" "last lower" "last closes"]
    by blast
  have qu: "parameters st ''quantity'' = Some q \<longrightarrow> quantity (intent sd) = q"
    by (simp add: assms(9) dict_get_def)
  have sc: "closes = replicate 20 100 @ [80] \<and> spec_BBANDS closes 20 2 2 = Inr (su, sm, sl) \<and>
          close_to 1 (last lower) (last sl) \<longrightarrow>
            check_mean_reversion_signal m st = Some (intent ''BUY'') \<and>
            price (intent ''BUY'') = 80"
  proof (intro impI)
    assume h: "closes = replicate 20 100 @ [80] \<and> spec_BBANDS closes 20 2 2 = Inr (su, sm, sl) \<and>
          close_to 1 (last lower) (last sl)"
    then have c: "closes = replicate 20 100 @ [80]" by simp
    from h have "spec_BBANDS closes 20 2 2 = Inr (su, sm, sl)" by blast
    then have "sl = map (band closes 20 (- 2)) [0..<length closes]"
      by (simp add: spec_BBANDS_def)
    then have sl: "last sl = Some (99 - 2 * sqrt 19)"
      by (simp only: c spec_lower_ex)
    obtain lo where lo: "last lower = Some lo" "\<bar>lo - (99 - 2 * sqrt 19)\<bar> \<le> 1"
      using h sl by (cases "last lower") auto
    have "80 < lo" using lo(2) sqrt_19_bounds by linarith
    then have "buy" by (simp add: assms(10) c lo(1))
    then show "check_mean_reversion_signal m st = Some (intent ''BUY'') \<and>
            price (intent ''BUY'') = 80"
      by (simp add: eq assms(9) c)
  qed
  show ?thesis using eq ex qu sc by blast
qed

theorem C6_mean_reversion_signal_witness:
  "talib ex_rounded_market = Some ex_rounded_talib \<and>
   parameters ex_configured_strategy ''symbol'' = Some (JStr ''MSFT'') \<and>
   parameters ex_configured_strategy ''quantity'' = Some (JNum 25) \<and>
   map close_price (get_bars ex_rounded_market (JStr ''MSFT'') ''1D'' 50) = replicate 20 100 @ [80] \<and>
   BBANDS ex_rounded_talib (replicate 20 100 @ [80]) 20 2 2 =
     Inr (replicate 21 (Some (10772 / 100)), replicate 21 (Some 99),
          replicate 21 (Some (9028 / 100))) \<and>
   close_to 1 (Some (9028 / 100)) (Some (99 - 2 * sqrt 19)) \<and>
   check_mean_reversion_signal ex_rounded_market ex_configured_strategy =
     Some \<lparr> symbol = JStr ''MSFT'', side = ''BUY'', quantity = JNum 25, price = 80 \<rparr>"
proof -
  let ?cl = "map close_price (get_bars ex_rounded_market (JStr ''MSFT'') ''1D'' 50)"
  have ta: "talib ex_rounded_market = Some ex_rounded_talib"
    by (simp add: ex_rounded_market_def)
  have ps: "parameters ex_configured_strategy ''symbol'' = Some (JStr ''MSFT'')"
    "parameters ex_configured_strategy ''quantity'' = Some (JNum 25)"
    by (simp_all add: ex_configured_strategy_def)
  have sy: "JStr ''MSFT'' = dict_get (parameters ex_configured_strategy) ''symbol'' (JStr ''AAPL'')"
    by (simp add: dict_get_def ps)
  have cl: "?cl = replicate 20 100 @ [80]"
    by (simp add: get_bars_def ex_rounded_market_def ex_market_def ex_bars_def flat_bar_def
        comp_def)
  have ln: "20 \<le> length ?cl" by (simp add: cl)
  have bb: "BBANDS ex_rounded_talib (replicate 20 100 @ [80]) 20 2 2 =
     Inr (replicate 21 (Some (10772 / 100)), replicate 21 (Some 99),
          replicate 21 (Some (9028 / 100)))"
    by (simp add: ex_rounded_talib_def eval_nat_numeral)
  have bb': "BBANDS ex_rounded_talib ?cl 20 2 2 =
     Inr (replicate 21 (Some (10772 / 100)), replicate 21 (Some 99),
          replicate 21 (Some (9028 / 100)))"
    by (simp only: cl bb)
  have ne: "replicate 21 (Some (10772 / 100 :: real)) \<noteq> []" "replicate 21 (Some (99::real)) \<noteq> []"
    "replicate 21 (Some (9028 / 100 :: real)) \<noteq> []"
    by simp_all
  have sp: "spec_BBANDS ?cl 20 2 2 =
      Inr (map (band ?cl 20 2) [0..<length ?cl], map (band ?cl 20 0) [0..<length ?cl],
           map (band ?cl 20 (- 2)) [0..<length ?cl])"
    by (simp add: spec_BBANDS_def)
  have ct: "close_to 1 (Some (9028 / 100)) (Some (99 - 2 * sqrt 19))"
    using sqrt_19_bounds by (simp add: abs_le_iff)
  have ct': "close_to 1 (last (replicate 21 (Some (9028 / 100 :: real))))
      (last (map (band ?cl 20 (- 2)) [0..<length ?cl]))"
    using ct by (simp only: cl spec_lower_ex) simp
  note th = C6_mean_reversion_signal [OF ta sy refl ln bb' ne refl refl refl,
      where q = "JNum 25" and sd = "''BUY''"
        and su = "map (band ?cl 20 2) [0..<length ?cl]"
        and sm = "map (band ?cl 20 0) [0..<length ?cl]"
        and sl = "map (band ?cl 20 (- 2)) [0..<length ?cl]"]
  have "check_mean_reversion_signal ex_rounded_market ex_configured_strategy =
     Some \<lparr> symbol = JStr ''MSFT'', side = ''BUY'',
            quantity = dict_get (parameters ex_configured_strategy) ''quantity'' (JNum 10),
            price = last ?cl \<rparr>"
    using th cl sp ct' by blast
  then have "check_mean_reversion_signal ex_rounded_market ex_configured_strategy =
     Some \<lparr> symbol = JStr ''MSFT'', side = ''BUY'', quantity = JNum 25, price = 80 \<rparr>"
    by (simp add: dict_get_def ps cl)
  then show ?thesis using ta ps cl bb ct by blast
qed

text \<open>
  C7, as the spec states it, fails: with a provider that returns 10 bars, the job of the
  example completes with the status success, not skipped, and with the status error when
  its final commit raises.
\<close>

theorem C7_counterexample:
  "length (get_bars ex_short_market (JStr ''AAPL'') ''1D'' 50) = 10 \<and>
   execute_strategy (ex_env\<lparr>mkt := ex_short_market\<rparr>) ex_db ex_sid =
     (ex_db, Inr (success_result ex_sid 0 0)) \<and>
   status (success_result ex_sid 0 0) = ''success'' \<and>
   result_status (snd (execute_strategy
      (ex_env\<lparr>mkt := ex_short_market, raises := (\<lambda>op. op = CommitFinal)\<rparr>) ex_db ex_sid)) =
     Some ''error''"
proof -
  have l: "length (get_bars ex_short_market (JStr ''AAPL'') ''1D'' 50) = 10"
    by (simp add: get_bars_def ex_short_market_def ex_market_def)
  have n: "check_mean_reversion_signal ex_short_market ex_strategy = None"
    by (rule short_mean_reversion) (simp add: ex_params l)
  have a: "execute_strategy (ex_env\<lparr>mkt := ex_short_market\<rparr>) ex_db ex_sid =
     (ex_db, Inr (success_result ex_sid 0 0))"
    by (simp add: execute_strategy_def ex_env_facts find_ex trade_on_signal_def n)
  have b: "result_status (snd (execute_strategy
      (ex_env\<lparr>mkt := ex_short_market, raises := (\<lambda>op. op = CommitFinal)\<rparr>) ex_db ex_sid)) =
     Some ''error''"
    by (simp add: execute_strategy_def ex_env_facts find_ex trade_on_signal_def n error_result_def)
  show ?thesis using l a b by (simp add: success_result_def)
qed

text \<open>
  C7 (amended). For every series shorter than the minimum of the strategy's type (50 bars
  for momentum, 20 for mean reversion) the signal check produces no trade intent, and the
  job of a found strategy and portfolio writes nothing and completes with the status
  success and no executed trade; its status is error only when its final commit raises,
  and it returns nothing when no database session can be created.
\<close>

theorem C7_short_series:
  "(length (get_bars m (dict_get (parameters st) ''symbol'' (JStr ''AAPL'')) ''1D'' 100) < 50 \<longrightarrow>
      check_momentum_signal m st = None) \<and>
   (length (get_bars m (dict_get (parameters st) ''symbol'' (JStr ''AAPL'')) ''1D'' 50) < 20 \<longrightarrow>
      check_mean_reversion_signal m st = None) \<and>
   (UUID e sid = Some u \<and> \<not> raises e QueryStrategy \<and>
    find (\<lambda>s. s_id s = u \<and> is_active s) (strategies db) = Some st \<and>
    \<not> raises e QueryPortfolio \<and>
    find (\<lambda>p. p_id p = s_portfolio_id st) (portfolios db) = Some pf \<and>
    (strategy_type st = ''momentum'' \<longrightarrow>
       length (get_bars (mkt e) (dict_get (parameters st) ''symbol'' (JStr ''AAPL'')) ''1D'' 100) < 50) \<and>
    (strategy_type st = ''mean_reversion'' \<longrightarrow>
       length (get_bars (mkt e) (dict_get (parameters st) ''symbol'' (JStr ''AAPL'')) ''1D'' 50) < 20) \<longrightarrow>
      execute_strategy e db sid =
        (db, if session_local e
             then Inr (if raises e CommitFinal then error_result (str_error DatabaseError)
                       else success_result sid 0 (utcnow e))
             else Inl TypeError))"
proof (intro conjI impI)
  assume "length (get_bars m (dict_get (parameters st) ''symbol'' (JStr ''AAPL'')) ''1D'' 100) < 50"
  then show "check_momentum_signal m st = None" by (rule short_momentum)
next
  assume "length (get_bars m (dict_get (parameters st) ''symbol'' (JStr ''AAPL'')) ''1D'' 50) < 20"
  then show "check_mean_reversion_signal m st = None" by (rule short_mean_reversion)
next
  assume h: "UUID e sid = Some u \<and> \<not> raises e QueryStrategy \<and>
    find (\<lambda>s. s_id s = u \<and> is_active s) (strategies db) = Some st \<and>
    \<not> raises e QueryPortfolio \<and>
    find (\<lambda>p. p_id p = s_portfolio_id st) (portfolios db) = Some pf \<and>
    (strategy_type st = ''momentum'' \<longrightarrow>
       length (get_bars (mkt e) (dict_get (parameters st) ''symbol'' (JStr ''AAPL'')) ''1D'' 100) < 50) \<and>
    (strategy_type st = ''mean_reversion'' \<longrightarrow>
       length (get_bars (mkt e) (dict_get (parameters st) ''symbol'' (JStr ''AAPL'')) ''1D'' 50) < 20)"
  show "execute_strategy e db sid =
        (db, if session_local e
             then Inr (if raises e CommitFinal then error_result (str_error DatabaseError)
                       else success_result sid 0 (utcnow e))
             else Inl TypeError)"
  proof (rule execute_strategy_no_signal)
    show "UUID e sid = Some u" "\<not> raises e QueryStrategy"
      "find (\<lambda>s. s_id s = u \<and> is_active s) (strategies db) = Some st"
      "\<not> raises e QueryPortfolio"
      "find (\<lambda>p. p_id p = s_portfolio_id st) (portfolios db) = Some pf"
      using h by simp_all
    show "strategy_type st = ''momentum'' \<Longrightarrow> check_momentum_signal (mkt e) st = None"
      using h by (intro short_momentum) simp
    show "strategy_type st = ''mean_reversion'' \<Longrightarrow> check_mean_reversion_signal (mkt e) st = None"
      using h by (intro short_mean_reversion) simp
  qed
qed

theorem C7_short_series_witness:
  "length (get_bars ex_short_market (dict_get (parameters ex_strategy) ''symbol'' (JStr ''AAPL'')) ''1D'' 50) < 20 \<and>
   check_mean_reversion_signal ex_short_market ex_strategy = None \<and>
   UUID (ex_env\<lparr>mkt := ex_short_market\<rparr>) ex_sid = Some 11 \<and>
   find (\<lambda>s. s_id s = 11 \<and> is_active s) (strategies ex_db) = Some ex_strategy \<and>
   find (\<lambda>p. p_id p = s_portfolio_id ex_strategy) (portfolios ex_db) = Some ex_portfolio \<and>
   execute_strategy (ex_env\<lparr>mkt := ex_short_market\<rparr>) ex_db ex_sid =
     (ex_db, Inr (success_result ex_sid 0 0))"
proof -
  have l: "\<And>n. length (get_bars ex_short_market (dict_get (parameters ex_strategy) ''symbol'' (JStr ''AAPL'')) ''1D'' n) = 10"
    by (simp add: get_bars_def ex_short_market_def ex_market_def)
  have e: "UUID (ex_env\<lparr>mkt := ex_short_market\<rparr>) ex_sid = Some 11"
    "\<And>op. \<not> raises (ex_env\<lparr>mkt := ex_short_market\<rparr>) op"
    "mkt (ex_env\<lparr>mkt := ex_short_market\<rparr>) = ex_short_market"
    "utcnow (ex_env\<lparr>mkt := ex_short_market\<rparr>) = 0"
    by (simp_all add: ex_env_facts)
  show ?thesis
    using C7_short_series [where m = ex_short_market and st = ex_strategy
        and e = "ex_env\<lparr>mkt := ex_short_market\<rparr>" and sid = ex_sid and u = 11 and db = ex_db
        and pf = ex_portfolio]
    by (simp add: l e ex_env_facts find_ex)
qed

text \<open>
  C8. Two evaluations of a signal check that meet the same TA-Lib and receive the identical
  series from the provider yield the identical intent, or both none, whatever else differs
  between them (the clock, the random source, the provider's other answers).
\<close>

theorem C8_deterministic:
  "(talib m1 = talib m2 \<and>
    get_bars m1 (dict_get (parameters st) ''symbol'' (JStr ''AAPL'')) ''1D'' 100 =
    get_bars m2 (dict_get (parameters st) ''symbol'' (JStr ''AAPL'')) ''1D'' 100 \<longrightarrow>
      check_momentum_signal m1 st = check_momentum_signal m2 st) \<and>
   (talib m1 = talib m2 \<and>
    get_bars m1 (dict_get (parameters st) ''symbol'' (JStr ''AAPL'')) ''1D'' 50 =
    get_bars m2 (dict_get (parameters st) ''symbol'' (JStr ''AAPL'')) ''1D'' 50 \<longrightarrow>
      check_mean_reversion_signal m1 st = check_mean_reversion_signal m2 st)"
  using momentum_deterministic [of m1 m2 st] mean_reversion_deterministic [of m1 m2 st]
  by blast

theorem C8_deterministic_witness:
  "talib ex_market = talib ex_later_market \<and>
   get_bars ex_market (dict_get (parameters ex_strategy) ''symbol'' (JStr ''AAPL'')) ''1D'' 50 =
   get_bars ex_later_market (dict_get (parameters ex_strategy) ''symbol'' (JStr ''AAPL'')) ''1D'' 50 \<and>
   get_bars ex_market (dict_get (parameters ex_strategy) ''symbol'' (JStr ''AAPL'')) ''1D'' 100 =
   get_bars ex_later_market (dict_get (parameters ex_strategy) ''symbol'' (JStr ''AAPL'')) ''1D'' 100 \<and>
   now ex_market \<noteq> now ex_later_market \<and>
   check_momentum_signal ex_later_market ex_strategy = check_momentum_signal ex_market ex_strategy \<and>
   check_mean_reversion_signal ex_later_market ex_strategy = Some (ex_signal ''BUY'')"
proof -
  have t: "talib ex_market = talib ex_later_market"
    by (simp add: ex_later_market_def)
  have g: "\<And>s tf n. get_bars ex_market s tf n = get_bars ex_later_market s tf n"
    by (simp add: get_bars_def ex_later_market_def ex_market_def ex_bars_def)
  have n: "now ex_market \<noteq> now ex_later_market"
    by (simp add: ex_later_market_def ex_market_def)
  show ?thesis
    using C8_deterministic [of ex_market ex_later_market ex_strategy] t g n
      check_mean_reversion_ex
    by simp
qed

section \<open>Exceptions in the signal checks\<close>

lemma round2_vals: "round2 150 = 150" "round2 (295 / 2) = 295 / 2"
  by (simp_all add: round2_def)

lemma sample_close_flat:
  assumes "i < 49"
  shows "close_price (sample_bar ex_failing_market 50 i) = 150"
proof -
  have "4 * i \<noteq> 196" "4 * i \<noteq> 197" "4 * i + 1 \<noteq> 196" "4 * i + 1 \<noteq> 197"
    using assms by presburger+
  then show ?thesis
    by (simp add: sample_bar_def ex_failing_market_def uniform_def Let_def round2_vals)
qed

lemma sample_close_last: "close_price (sample_bar ex_failing_market 50 49) = 295 / 2"
  by (simp add: sample_bar_def ex_failing_market_def uniform_def Let_def round2_vals)

lemma sample_closes:
  "map close_price (get_sample_bars ex_failing_market s 50) = replicate 49 150 @ [295 / 2]"
proof -
  have "[0..<50] = [0..<49] @ [49]" by (simp add: upt_rec)
  then have "map close_price (get_sample_bars ex_failing_market s 50) =
      map (\<lambda>i. close_price (sample_bar ex_failing_market 50 i)) [0..<49] @
        [close_price (sample_bar ex_failing_market 50 49)]"
    by (simp add: get_sample_bars_def comp_def)
  also have "map (\<lambda>i. close_price (sample_bar ex_failing_market 50 i)) [0..<49] =
      map (\<lambda>i. 150) [0..<49]"
    by (rule map_cong) (simp_all add: sample_close_flat)
  also have "\<dots> = replicate 49 150" by (simp add: map_replicate_const)
  finally show ?thesis by (simp add: sample_close_last)
qed

lemma get_bars_failing: "get_bars ex_failing_market s tf n = get_sample_bars ex_failing_market s n"
  by (simp add: get_bars_def ex_failing_market_def)

lemma sma_f: "sma (replicate 19 150 @ [295 / 2]) = 1199 / 8"
  by (simp add: sma_def sum_list_replicate)

lemma stddev_f: "stddev (replicate 19 150 @ [295 / 2]) = sqrt 19 / 8"
proof -
  have "stddev (replicate 19 150 @ [295 / 2]) = sqrt (19 / 64)"
    by (simp add: stddev_def sma_f) (simp add: sma_def sum_list_replicate power2_eq_square)
  also have "\<dots> = sqrt 19 / sqrt 64" by (rule real_sqrt_divide)
  also have "sqrt 64 = 8" by (rule real_sqrt_unique) simp_all
  finally show ?thesis .
qed

lemma failing_signal:
  "check_mean_reversion_signal ex_failing_market ex_strategy =
     Some \<lparr> symbol = JStr ''AAPL'', side = ''BUY'', quantity = JNum 10, price = 295 / 2 \<rparr>"
proof -
  have t: "talib ex_failing_market = Some ex_talib" by (simp add: ex_failing_market_def)
  have l: "20 \<le> length (get_bars ex_failing_market (dict_get (parameters ex_strategy) ''symbol'' (JStr ''AAPL'')) ''1D'' 50)"
    by (simp add: get_bars_failing get_sample_bars_def)
  show ?thesis
    using sqrt_19
    by (simp add: mean_reversion_spec [OF t ex_talib_facts(2) l] get_bars_failing sample_closes
        ex_params sma_f stddev_f Let_def)
qed

text \<open>
  C10, as stated, fails for a provider failure: the SDK call raises, \<^verbatim>\<open>get_bars\<close> catches
  the exception and returns 50 sample bars (49 closes at 150 and a last one at 147.5 for
  these draws), and the mean-reversion check emits a BUY on them.
\<close>

theorem C10_counterexample:
  "client ex_failing_market \<and>
   sdk_get_bars ex_failing_market (JStr ''AAPL'') ''1D'' 50 = None \<and>
   map close_price (get_bars ex_failing_market (JStr ''AAPL'') ''1D'' 50) =
     replicate 49 150 @ [295 / 2] \<and>
   check_mean_reversion_signal ex_failing_market ex_strategy =
     Some \<lparr> symbol = JStr ''AAPL'', side = ''BUY'', quantity = JNum 10, price = 295 / 2 \<rparr>"
  by (simp add: failing_signal get_bars_failing sample_closes) (simp add: ex_failing_market_def)

text \<open>
  C10 (amended). A missing TA-Lib and every exception that reaches the handler of a signal
  check yield no trade intent; the job of a found strategy and portfolio then writes
  nothing and completes with the status success and no executed trade, provided its final
  commit does not raise (and returns nothing when no database session can be created). A
  failure of the provider does not reach the handler:
  \<^verbatim>\<open>get_bars\<close> replaces the series by the sample bars.
\<close>

theorem C10_signal_errors_absorbed:
  "(talib m = None \<longrightarrow>
      check_momentum_signal m st = None \<and> check_mean_reversion_signal m st = None) \<and>
   (check_momentum_signal_try m st = Inl err \<longrightarrow> check_momentum_signal m st = None) \<and>
   (check_mean_reversion_signal_try m st = Inl err \<longrightarrow> check_mean_reversion_signal m st = None) \<and>
   (UUID e sid = Some u \<and> \<not> raises e QueryStrategy \<and>
    find (\<lambda>s. s_id s = u \<and> is_active s) (strategies db) = Some st \<and>
    \<not> raises e QueryPortfolio \<and>
    find (\<lambda>p. p_id p = s_portfolio_id st) (portfolios db) = Some pf \<and>
    (strategy_type st = ''momentum'' \<longrightarrow>
       talib (mkt e) = None \<or> check_momentum_signal_try (mkt e) st = Inl err) \<and>
    (strategy_type st = ''mean_reversion'' \<longrightarrow>
       talib (mkt e) = None \<or> check_mean_reversion_signal_try (mkt e) st = Inl err) \<and>
    \<not> raises e CommitFinal \<longrightarrow>
      execute_strategy e db sid =
        (db, if session_local e then Inr (success_result sid 0 (utcnow e)) else Inl TypeError)) \<and>
   (client m \<and> sdk_get_bars m s tf n = None \<longrightarrow> get_bars m s tf n = get_sample_bars m s n)"
proof (intro conjI impI)
  assume "talib m = None"
  then show "check_momentum_signal m st = None"
    by (simp add: check_momentum_signal_def check_momentum_signal_try_def)
next
  assume "talib m = None"
  then show "check_mean_reversion_signal m st = None"
    by (simp add: check_mean_reversion_signal_def check_mean_reversion_signal_try_def)
next
  assume "check_momentum_signal_try m st = Inl err"
  then show "check_momentum_signal m st = None"
    by (simp add: check_momentum_signal_def)
next
  assume "check_mean_reversion_signal_try m st = Inl err"
  then show "check_mean_reversion_signal m st = None"
    by (simp add: check_mean_reversion_signal_def)
next
  assume h: "UUID e sid = Some u \<and> \<not> raises e QueryStrategy \<and>
    find (\<lambda>s. s_id s = u \<and> is_active s) (strategies db) = Some st \<and>
    \<not> raises e QueryPortfolio \<and>
    find (\<lambda>p. p_id p = s_portfolio_id st) (portfolios db) = Some pf \<and>
    (strategy_type st = ''momentum'' \<longrightarrow>
       talib (mkt e) = None \<or> check_momentum_signal_try (mkt e) st = Inl err) \<and>
    (strategy_type st = ''mean_reversion'' \<longrightarrow>
       talib (mkt e) = None \<or> check_mean_reversion_signal_try (mkt e) st = Inl err) \<and>
    \<not> raises e CommitFinal"
  then have n: "strategy_type st = ''momentum'' \<Longrightarrow> check_momentum_signal (mkt e) st = None"
    "strategy_type st = ''mean_reversion'' \<Longrightarrow> check_mean_reversion_signal (mkt e) st = None"
    by (auto simp add: check_momentum_signal_def check_momentum_signal_try_def
        check_mean_reversion_signal_def check_mean_reversion_signal_try_def)
  have "execute_strategy e db sid =
     (db, if session_local e
          then Inr (if raises e CommitFinal then error_result (str_error DatabaseError)
                    else success_result sid 0 (utcnow e))
          else Inl TypeError)"
    using h n by (intro execute_strategy_no_signal [of e sid u db st pf]) blast+
  then show "execute_strategy e db sid =
        (db, if session_local e then Inr (success_result sid 0 (utcnow e)) else Inl TypeError)"
    using h by simp
next
  assume "client m \<and> sdk_get_bars m s tf n = None"
  then show "get_bars m s tf n = get_sample_bars m s n"
    by (simp add: get_bars_def)
qed

theorem C10_signal_errors_absorbed_witness:
  "check_mean_reversion_signal_try ex_raising_market ex_strategy = Inl ValueError \<and>
   check_mean_reversion_signal ex_raising_market ex_strategy = None \<and>
   UUID (ex_env\<lparr>mkt := ex_raising_market\<rparr>) ex_sid = Some 11 \<and>
   find (\<lambda>s. s_id s = 11 \<and> is_active s) (strategies ex_db) = Some ex_strategy \<and>
   find (\<lambda>p. p_id p = s_portfolio_id ex_strategy) (portfolios ex_db) = Some ex_portfolio \<and>
   execute_strategy (ex_env\<lparr>mkt := ex_raising_market\<rparr>) ex_db ex_sid =
     (ex_db, Inr (success_result ex_sid 0 0)) \<and>
   client ex_failing_market \<and> sdk_get_bars ex_failing_market (JStr ''AAPL'') ''1D'' 50 = None \<and>
   get_bars ex_failing_market (JStr ''AAPL'') ''1D'' 50 =
     get_sample_bars ex_failing_market (JStr ''AAPL'') 50"
proof -
  have b: "\<And>s tf n. get_bars ex_raising_market s tf n = ex_bars"
    by (simp add: get_bars_def ex_raising_market_def ex_market_def ex_bars_def)
  have r: "check_mean_reversion_signal_try ex_raising_market ex_strategy = Inl ValueError"
    by (simp add: check_mean_reversion_signal_try_def ex_raising_market_def ex_market_def
        get_bars_def ex_bars_def bind_err_def Let_def)
  have e: "UUID (ex_env\<lparr>mkt := ex_raising_market\<rparr>) ex_sid = Some 11"
    "\<And>op. \<not> raises (ex_env\<lparr>mkt := ex_raising_market\<rparr>) op"
    "mkt (ex_env\<lparr>mkt := ex_raising_market\<rparr>) = ex_raising_market"
    "utcnow (ex_env\<lparr>mkt := ex_raising_market\<rparr>) = 0"
    by (simp_all add: ex_env_facts)
  have f: "client ex_failing_market" "sdk_get_bars ex_failing_market (JStr ''AAPL'') ''1D'' 50 = None"
    by (simp_all add: ex_failing_market_def)
  show ?thesis
    using C10_signal_errors_absorbed [where m = ex_raising_market and st = ex_strategy
        and err = ValueError and e = "ex_env\<lparr>mkt := ex_raising_market\<rparr>" and sid = ex_sid
        and u = 11 and db = ex_db and pf = ex_portfolio]
      C10_signal_errors_absorbed [where m = ex_failing_market and s = "JStr ''AAPL''"
        and tf = "''1D''" and n = 50]
    by (simp add: r e ex_env_facts f find_ex)
qed

end
